theory Spec2Isabelle
  imports Main
begin

section \<open>JavaScript values and the platform functions the helper calls\<close>

text \<open>
  \<^verbatim>\<open>network-helper.ts\<close> handles result events whose \<^verbatim>\<open>data\<close> is typed
  \<^verbatim>\<open>unknown\<close>, tests them for truthiness and prints them with
  \<^verbatim>\<open>JSON.stringify(_, null, 2)\<close>. A JavaScript value is modelled by the part of it
  that \<^verbatim>\<open>JSON.stringify\<close> reads: an object is the list of its own enumerable
  string-keyed properties in enumeration order, a number is an integer in the range
  that prints in plain decimal notation, a string is a list of 8-bit characters.
\<close>

datatype jsvalue =
    Undefined
  | Null
  | Bool bool
  | Num int
  | Str string
  | Arr "jsvalue list"
  | Obj "(string \<times> jsvalue) list"

text \<open>\<^verbatim>\<open>ToBoolean\<close>: what \<^verbatim>\<open>if (v)\<close> and \<^verbatim>\<open>a || b\<close> test.\<close>

fun truthy :: "jsvalue \<Rightarrow> bool" where
  "truthy Undefined = False"
| "truthy Null = False"
| "truthy (Bool b) = b"
| "truthy (Num n) = (n \<noteq> 0)"
| "truthy (Str s) = (s \<noteq> [])"
| "truthy (Arr xs) = True"
| "truthy (Obj kvs) = True"

fun digits :: "nat \<Rightarrow> string" where
  "digits n =
     (if n < 10 then [char_of (48 + n)]
      else digits (n div 10) @ [char_of (48 + n mod 10)])"

declare digits.simps [simp del]

definition number_toString :: "int \<Rightarrow> string" where
  "number_toString n =
     (if n < 0 then CHR ''-'' # digits (nat (- n)) else digits (nat n))"

definition hex_digit :: "nat \<Rightarrow> char" where
  "hex_digit d = (if d < 10 then char_of (48 + d) else char_of (87 + d))"

text \<open>
  \<^verbatim>\<open>QuoteJSONString\<close> of ECMA-262: the two-character escapes, \<^verbatim>\<open>\u00xx\<close> for the
  other control characters, every other character as it is. \<^verbatim>\<open>0x5C\<close> is the
  backslash and \<^verbatim>\<open>0x22\<close> the double quote.
\<close>

definition quote_char :: "char \<Rightarrow> string" where
  "quote_char c =
     (if c = CHR 0x08 then [CHR 0x5C, CHR ''b'']
      else if c = CHR 0x09 then [CHR 0x5C, CHR ''t'']
      else if c = CHR 0x0A then [CHR 0x5C, CHR ''n'']
      else if c = CHR 0x0C then [CHR 0x5C, CHR ''f'']
      else if c = CHR 0x0D then [CHR 0x5C, CHR ''r'']
      else if c = CHR 0x22 then [CHR 0x5C, CHR 0x22]
      else if c = CHR 0x5C then [CHR 0x5C, CHR 0x5C]
      else if of_char c < (32::nat)
        then [CHR 0x5C, CHR ''u'', CHR ''0'', CHR ''0'',
              hex_digit (of_char c div 16), hex_digit (of_char c mod 16)]
      else [c])"

definition QuoteJSONString :: "string \<Rightarrow> string" where
  "QuoteJSONString s = [CHR 0x22] @ concat (map quote_char s) @ [CHR 0x22]"

fun join :: "string \<Rightarrow> string list \<Rightarrow> string" where
  "join sep [] = []"
| "join sep [x] = x"
| "join sep (x # y # ys) = x @ sep @ join sep (y # ys)"

text \<open>
  The common last step of \<^verbatim>\<open>SerializeJSONObject\<close> and \<^verbatim>\<open>SerializeJSONArray\<close>: no
  member gives the two brackets alone, an empty gap gives one line, otherwise every
  member is on a line of its own at the new indentation and the closing bracket is
  at the old one.
\<close>

definition wrap ::
  "string \<Rightarrow> string \<Rightarrow> string \<Rightarrow> string \<Rightarrow> string \<Rightarrow> string list \<Rightarrow> string" where
  "wrap l r stepback indent gap partial =
     (if partial = [] then l @ r
      else if gap = [] then l @ join '','' partial @ r
      else l @ [CHR 0x0A] @ indent @ join ('','' @ [CHR 0x0A] @ indent) partial
             @ [CHR 0x0A] @ stepback @ r)"

text \<open>
  \<^verbatim>\<open>SerializeJSONProperty\<close> gives no string (\<open>None\<close>, JavaScript's
  \<^verbatim>\<open>undefined\<close>) for \<^verbatim>\<open>undefined\<close>; an object leaves such a property out and an
  array prints \<^verbatim>\<open>null\<close> in its place.
\<close>

fun SerializeJSONProperty :: "string \<Rightarrow> string \<Rightarrow> jsvalue \<Rightarrow> string option"
  and SerializeJSONObject :: "string \<Rightarrow> string \<Rightarrow> (string \<times> jsvalue) list \<Rightarrow> string"
  and SerializeJSONArray :: "string \<Rightarrow> string \<Rightarrow> jsvalue list \<Rightarrow> string" where
  "SerializeJSONProperty indent gap Undefined = None"
| "SerializeJSONProperty indent gap Null = Some ''null''"
| "SerializeJSONProperty indent gap (Bool b) = Some (if b then ''true'' else ''false'')"
| "SerializeJSONProperty indent gap (Num n) = Some (number_toString n)"
| "SerializeJSONProperty indent gap (Str s) = Some (QuoteJSONString s)"
| "SerializeJSONProperty indent gap (Arr xs) = Some (SerializeJSONArray indent gap xs)"
| "SerializeJSONProperty indent gap (Obj kvs) = Some (SerializeJSONObject indent gap kvs)"
| "SerializeJSONObject stepback gap kvs =
     wrap ''{'' ''}'' stepback (stepback @ gap) gap
       (concat (map (\<lambda>kv.
          case SerializeJSONProperty (stepback @ gap) gap (snd kv) of
            None \<Rightarrow> []
          | Some s \<Rightarrow>
              [QuoteJSONString (fst kv) @ '':'' @ (if gap = [] then [] else '' '') @ s])
          kvs))"
| "SerializeJSONArray stepback gap xs =
     wrap ''['' '']'' stepback (stepback @ gap) gap
       (map (\<lambda>v.
          case SerializeJSONProperty (stepback @ gap) gap v of
            None \<Rightarrow> ''null''
          | Some s \<Rightarrow> s)
          xs)"

text \<open>
  \<^verbatim>\<open>JSON.stringify(value, null, space)\<close> with a numeric \<^verbatim>\<open>space\<close>: the gap is
  that many blanks, ten at most. \<open>JSON_stringify_object\<close> is the same call on an
  object literal, where the result is always a string.
\<close>

definition JSON_gap :: "nat \<Rightarrow> string" where
  "JSON_gap space = replicate (min 10 space) (CHR '' '')"

definition JSON_stringify :: "jsvalue \<Rightarrow> nat \<Rightarrow> string option" where
  "JSON_stringify v space = SerializeJSONProperty [] (JSON_gap space) v"

definition JSON_stringify_object :: "(string \<times> jsvalue) list \<Rightarrow> nat \<Rightarrow> string" where
  "JSON_stringify_object kvs space = SerializeJSONObject [] (JSON_gap space) kvs"

text \<open>
  An \<^verbatim>\<open>Error\<close> object, by the two properties its \<^verbatim>\<open>toString\<close> reads, and
  \<^verbatim>\<open>Error.prototype.toString\<close>.
\<close>

record Error =
  error_name :: string
  error_message :: string

definition Error_toString :: "Error \<Rightarrow> string" where
  "Error_toString e =
     (if error_name e = [] then error_message e
      else if error_message e = [] then error_name e
      else error_name e @ '': '' @ error_message e)"

section \<open>The result consumer\<close>

text \<open>
  \<^verbatim>\<open>CombinedError\<close> of urql: the GraphQL errors (each by its JSON form) and the
  network error; either may be missing (\<open>None\<close> is \<^verbatim>\<open>undefined\<close> or
  \<^verbatim>\<open>null\<close>).
\<close>

record CombinedError =
  graphQLErrors :: "jsvalue list option"
  networkError :: "Error option"

text \<open>
  The three properties \<^verbatim>\<open>buildSubscribeConsumer\<close> destructures from a result
  event. A property the event does not have reads as \<open>Undefined\<close>.
\<close>

record OperationResult =
  errors :: jsvalue
  data :: jsvalue
  error :: "CombinedError option"

definition formatData :: "OperationResult \<Rightarrow> string" where
  "formatData result =
     JSON_stringify_object [(''data'', data result), (''errors'', errors result)] 2"

text \<open>
  The consumer for one operation, applied to one result event. Its effect is the
  calls of the update callback \<^verbatim>\<open>cb(data, operation)\<close> it makes, in order.
\<close>

definition buildSubscribeConsumer :: "string \<Rightarrow> OperationResult \<Rightarrow> (string \<times> string) list" where
  "buildSubscribeConsumer operation result =
     (if truthy (errors result) \<or> truthy (data result)
      then [(formatData result, operation)] else [])
     @ (case error result of
          None \<Rightarrow> []
        | Some err \<Rightarrow>
            (if (case graphQLErrors err of None \<Rightarrow> False | Some es \<Rightarrow> length es > 0)
             then [(JSON_stringify_object
                      [(''errors'', Arr (case graphQLErrors err of None \<Rightarrow> [] | Some es \<Rightarrow> es))] 2,
                    operation)]
             else [])
            @ (case networkError err of
                 None \<Rightarrow> []
               | Some e \<Rightarrow> [(Error_toString e, operation)]))"

section \<open>Building a client\<close>

text \<open>
  What \<^verbatim>\<open>buildClient\<close> reads from the platform: the setting
  \<^verbatim>\<open>rejectUnauthorized\<close> of the workspace configuration
  \<^verbatim>\<open>vscode-graphql\<close>, and \<^verbatim>\<open>new URL(u).protocol\<close>, which is \<open>None\<close> where
  the constructor throws a \<^verbatim>\<open>TypeError\<close>. What \<^verbatim>\<open>executeOperation\<close> calls
  outside this file: the fragment resolver of \<^verbatim>\<open>./source-helper\<close>
  (\<^verbatim>\<open>getFragmentDefinitions\<close> followed by \<^verbatim>\<open>getFragmentDependenciesForAST\<close>),
  the parser behind the \<^verbatim>\<open>gql\<close> tag, and the start of a result stream
  (\<^verbatim>\<open>pipe(urqlClient.query(..), subscribe(..))\<close>), each of which may throw. They
  are parameters of the model; every property below holds for all of them.
\<close>

datatype exception = TypeError | Exception string

record Endpoint =
  url :: string
  headers :: "(string \<times> string) list"

record Agent =
  agent_rejectUnauthorized :: bool

record WSClient =
  ws_url :: string
  connectionAckWaitTimeout :: nat

datatype Exchange =
    dedupExchange
  | cacheExchange
  | fetchExchange
  | subscriptionExchange WSClient

definition defaultExchanges :: "Exchange list" where
  "defaultExchanges = [dedupExchange, cacheExchange, fetchExchange]"

record FetchOptions =
  fetch_headers :: "(string \<times> string) list"
  agent :: "Agent option"

record Client =
  client_url :: string
  fetchOptions :: FetchOptions
  exchanges :: "Exchange list"

datatype OperationTypeNode = QUERY | MUTATION | SUBSCRIPTION

fun OperationTypeNode_value :: "OperationTypeNode \<Rightarrow> string" where
  "OperationTypeNode_value QUERY = ''query''"
| "OperationTypeNode_value MUTATION = ''mutation''"
| "OperationTypeNode_value SUBSCRIPTION = ''subscription''"

text \<open>
  A parsed document, by what the helper reads of it: the list of its definitions,
  and of an operation definition its kind and the value of its name node, if it has
  one.
\<close>

datatype DefinitionNode =
    OperationDefinition OperationTypeNode "string option"
  | FragmentDefinition string
  | TypeSystemDefinition

type_synonym DocumentNode = "DefinitionNode list"

record FragmentInfo =
  fragment_content :: string

record ExtractedTemplateLiteral =
  content :: string
  ast :: DocumentNode

text \<open>
  A result stream the helper has subscribed to: the client method that made it, the
  client, the document and the variables it was made from, and the operation kind
  its consumer \<^verbatim>\<open>buildSubscribeConsumer(updateCallback, operation)\<close> tags every
  callback with.
\<close>

record Stream =
  stream_method :: string
  stream_client :: Client
  stream_document :: DocumentNode
  stream_variables :: "(string \<times> jsvalue) list"
  subscriber_operation :: string

record Platform =
  rejectUnauthorized :: bool
  URL_protocol :: "string \<Rightarrow> string option"
  getFragmentInfos :: "DocumentNode \<Rightarrow> exception + FragmentInfo list"
  gql :: "string \<Rightarrow> exception + DocumentNode"
  subscribe_throws :: "Stream \<Rightarrow> exception option"

text \<open>\<^verbatim>\<open>endpoint.url.replace(/^http/, "ws")\<close>: the pattern matches at the start of the
  string only, and case-sensitively.\<close>

definition replace_http_ws :: "string \<Rightarrow> string" where
  "replace_http_ws u = (if take 4 u = ''http'' then ''ws'' @ drop 4 u else u)"

definition buildClient :: "Platform \<Rightarrow> string \<Rightarrow> Endpoint \<Rightarrow> exception + Client" where
  "buildClient env operation endpoint =
     (let agent = \<lparr>agent_rejectUnauthorized = rejectUnauthorized env\<rparr>;
          exchanges =
            defaultExchanges
            @ (if operation = ''subscription''
               then [subscriptionExchange
                       \<lparr>ws_url = replace_http_ws (url endpoint),
                        connectionAckWaitTimeout = 3000\<rparr>]
               else [])
      in case URL_protocol env (url endpoint) of
           None \<Rightarrow> Inl TypeError
         | Some protocol \<Rightarrow>
             Inr \<lparr>client_url = url endpoint,
                  fetchOptions =
                    \<lparr>fetch_headers = headers endpoint,
                     agent = (if protocol = ''https:'' then Some agent else None)\<rparr>,
                  exchanges = exchanges\<rparr>)"

section \<open>Executing the operations of a document\<close>

text \<open>
  \<^verbatim>\<open>visit(ast, { OperationDefinition(node) { .. } })\<close>: one walk over the document
  that calls the visitor on every node of kind \<^verbatim>\<open>OperationDefinition\<close>, in document
  order. Such nodes are members of the document's definitions only.
\<close>

fun visit :: "DocumentNode \<Rightarrow> (OperationTypeNode \<Rightarrow> string option \<Rightarrow> 's \<Rightarrow> 's) \<Rightarrow> 's \<Rightarrow> 's" where
  "visit [] enter s = s"
| "visit (OperationDefinition operation name # defs) enter s =
     visit defs enter (enter operation name s)"
| "visit (FragmentDefinition name # defs) enter s = visit defs enter s"
| "visit (TypeSystemDefinition # defs) enter s = visit defs enter s"

text \<open>The first step of \<^verbatim>\<open>executeOperation\<close>: the two arrays the visitor pushes to.
  \<^verbatim>\<open>node.name?.value || ""\<close> is the empty string for a missing name and for an
  empty one.\<close>

definition classify :: "DocumentNode \<Rightarrow> OperationTypeNode list \<times> string list" where
  "classify document =
     visit document
       (\<lambda>operation name (operationTypes, operationNames).
          (operationTypes @ [operation],
           operationNames @ [case name of
                               None \<Rightarrow> []
                             | Some v \<Rightarrow> if v \<noteq> [] then v else []]))
       ([], [])"

text \<open>The \<^verbatim>\<open>forEach\<close> over the fragment dependencies: each one's text and a line
  feed go in front of the content so far.\<close>

definition inlineFragments :: "FragmentInfo list \<Rightarrow> string \<Rightarrow> string" where
  "inlineFragments fragmentInfos c =
     foldl (\<lambda>content fragmentInfo. fragment_content fragmentInfo @ [CHR 0x0A] @ content)
       c fragmentInfos"

text \<open>The text of the \<^verbatim>\<open>gql\<close> template around \<^verbatim>\<open>literal.content\<close>.\<close>

definition gql_template :: "string \<Rightarrow> string" where
  "gql_template c = [CHR 0x0A] @ ''      '' @ c @ [CHR 0x0A] @ ''    ''"

text \<open>
  What the helper does to its surroundings: the lines appended to the output
  channel, the lines of \<^verbatim>\<open>console.error\<close>, the clients \<^verbatim>\<open>createClient\<close> has
  returned, and the result streams subscribed to.
\<close>

record World =
  outputChannel :: "string list"
  console_error :: "string list"
  clients_built :: "Client list"
  streams :: "Stream list"

definition empty_World :: World where
  "empty_World = \<lparr>outputChannel = [], console_error = [], clients_built = [], streams = []\<rparr>"

record ExecuteOperationOptions =
  endpoint :: Endpoint
  literal :: ExtractedTemplateLiteral
  variables :: "(string \<times> jsvalue) list"

text \<open>
  The body of the function mapped over \<^verbatim>\<open>operationTypes\<close>. It has no
  \<^verbatim>\<open>await\<close>, so it runs to its end when \<^verbatim>\<open>map\<close> calls it, and its promise is
  resolved: the \<^verbatim>\<open>catch\<close> takes whatever \<^verbatim>\<open>buildClient\<close> or the start of the
  stream throws.
\<close>

definition executeOne ::
  "Platform \<Rightarrow> Endpoint \<Rightarrow> DocumentNode \<Rightarrow> (string \<times> jsvalue) list \<Rightarrow> string \<Rightarrow> World \<Rightarrow> World" where
  "executeOne env ep parsedOperation vars operation w =
     (let w1 = w\<lparr>outputChannel := outputChannel w
                  @ [''NetworkHelper: operation: '' @ operation,
                     ''NetworkHelper: endpoint: '' @ url ep]\<rparr>
      in case buildClient env operation ep of
           Inl e \<Rightarrow> w1\<lparr>console_error := console_error w1 @ [''error executing operation'']\<rparr>
         | Inr urqlClient \<Rightarrow>
             (let w2 = w1\<lparr>clients_built := clients_built w1 @ [urqlClient]\<rparr>;
                  stream =
                    \<lparr>stream_method =
                       (if operation = ''subscription'' then ''subscription''
                        else if operation = ''query'' then ''query''
                        else ''mutation''),
                     stream_client = urqlClient,
                     stream_document = parsedOperation,
                     stream_variables = vars,
                     subscriber_operation = operation\<rparr>
              in case subscribe_throws env stream of
                   Some e \<Rightarrow>
                     w2\<lparr>console_error := console_error w2 @ [''error executing operation'']\<rparr>
                 | None \<Rightarrow> w2\<lparr>streams := streams w2 @ [stream]\<rparr>))"

text \<open>
  \<^verbatim>\<open>executeOperation\<close>: the value its promise settles with (\<open>Inl\<close>: rejected;
  \<open>Inr\<close>: resolved with the array of \<^verbatim>\<open>Promise.all\<close>), the literal, whose
  content it overwrites, and the world after it.
\<close>

definition executeOperation ::
  "Platform \<Rightarrow> ExecuteOperationOptions \<Rightarrow> World
     \<Rightarrow> (exception + unit list) \<times> ExtractedTemplateLiteral \<times> World" where
  "executeOperation env opts w =
     (let (operationTypes, operationNames) = classify (ast (literal opts))
      in case getFragmentInfos env (ast (literal opts)) of
           Inl e \<Rightarrow> (Inl e, literal opts, w)
         | Inr fragmentInfos \<Rightarrow>
             (let literal' = (literal opts)
                    \<lparr>content := inlineFragments fragmentInfos (content (literal opts))\<rparr>
              in case gql env (gql_template (content literal')) of
                   Inl e \<Rightarrow> (Inl e, literal', w)
                 | Inr parsedOperation \<Rightarrow>
                     (Inr (map (\<lambda>operation. ()) operationTypes),
                      literal',
                      foldl (\<lambda>w operation.
                               executeOne env (endpoint opts) parsedOperation (variables opts)
                                 (OperationTypeNode_value operation) w)
                        w operationTypes)))"

section \<open>What the specification says the steps compute\<close>

text \<open>
  The classifier of the specification: the (kind, name) pair of every top-level
  operation definition, in document order, an unnamed operation having the empty
  name.
\<close>

fun operation_pairs :: "DocumentNode \<Rightarrow> (OperationTypeNode \<times> string) list" where
  "operation_pairs [] = []"
| "operation_pairs (OperationDefinition operation name # defs) =
     (operation, case name of None \<Rightarrow> [] | Some v \<Rightarrow> v) # operation_pairs defs"
| "operation_pairs (FragmentDefinition name # defs) = operation_pairs defs"
| "operation_pairs (TypeSystemDefinition # defs) = operation_pairs defs"

fun isOperationDefinition :: "DefinitionNode \<Rightarrow> bool" where
  "isOperationDefinition (OperationDefinition operation name) = True"
| "isOperationDefinition (FragmentDefinition name) = False"
| "isOperationDefinition TypeSystemDefinition = False"

text \<open>
  The text the inliner of the specification puts in front of the content: every
  fragment's source followed by a line feed, the last fragment of the list first.
\<close>

definition prepended_fragments :: "FragmentInfo list \<Rightarrow> string" where
  "prepended_fragments fragmentInfos =
     concat (map (\<lambda>fragmentInfo. fragment_content fragmentInfo @ [CHR 0x0A]) (rev fragmentInfos))"

text \<open>The clients one invocation builds for a list of operation kinds: for each
  entry the client \<^verbatim>\<open>buildClient\<close> returns, none where it throws.\<close>

definition clients_for :: "Platform \<Rightarrow> Endpoint \<Rightarrow> OperationTypeNode list \<Rightarrow> Client list" where
  "clients_for env ep operationTypes =
     concat (map (\<lambda>operation.
                    case buildClient env (OperationTypeNode_value operation) ep of
                      Inl e \<Rightarrow> []
                    | Inr c \<Rightarrow> [c])
               operationTypes)"

text \<open>Whether building or starting the client of one operation throws: what the
  \<^verbatim>\<open>try\<close> block of \<^verbatim>\<open>executeOperation\<close> catches.\<close>

definition operation_throws ::
  "Platform \<Rightarrow> Endpoint \<Rightarrow> DocumentNode \<Rightarrow> (string \<times> jsvalue) list \<Rightarrow> string \<Rightarrow> bool" where
  "operation_throws env ep parsedOperation vars operation =
     (case buildClient env operation ep of
        Inl e \<Rightarrow> True
      | Inr urqlClient \<Rightarrow>
          (case subscribe_throws env
                  \<lparr>stream_method =
                     (if operation = ''subscription'' then ''subscription''
                      else if operation = ''query'' then ''query''
                      else ''mutation''),
                   stream_client = urqlClient,
                   stream_document = parsedOperation,
                   stream_variables = vars,
                   subscriber_operation = operation\<rparr> of
             Some e \<Rightarrow> True
           | None \<Rightarrow> False))"

section \<open>Sample inputs\<close>

text \<open>
  A platform for the examples: TLS verification switched off, a URL parser that
  accepts the two kinds of endpoint the examples use, no fragment dependency, a
  parser that returns one query, and a transport that throws when a mutation is
  started.
\<close>

definition sample_URL_protocol :: "string \<Rightarrow> string option" where
  "sample_URL_protocol u =
     (if take 8 u = ''https://'' \<and> 8 < length u then Some ''https:''
      else if take 7 u = ''http://'' \<and> 7 < length u then Some ''http:''
      else None)"

definition sample_Platform :: Platform where
  "sample_Platform =
     \<lparr>rejectUnauthorized = False,
      URL_protocol = sample_URL_protocol,
      getFragmentInfos = (\<lambda>document. Inr []),
      gql = (\<lambda>text. Inr [OperationDefinition QUERY None]),
      subscribe_throws =
        (\<lambda>stream. if stream_method stream = ''mutation''
                   then Some (Exception ''socket closed'') else None)\<rparr>"

definition sample_Endpoint :: Endpoint where
  "sample_Endpoint = \<lparr>url = ''http://host/graphql'', headers = []\<rparr>"

text \<open>A document with a query, a mutation and a subscription; one with two
  queries; and one query sent to an endpoint whose URL does not parse.\<close>

definition three_operations :: ExecuteOperationOptions where
  "three_operations =
     \<lparr>endpoint = sample_Endpoint,
      literal = \<lparr>content = ''query A { a } mutation B { b } subscription C { c }'',
                 ast = [OperationDefinition QUERY (Some ''A''),
                        OperationDefinition MUTATION (Some ''B''),
                        OperationDefinition SUBSCRIPTION (Some ''C'')]\<rparr>,
      variables = []\<rparr>"

definition two_queries :: ExecuteOperationOptions where
  "two_queries =
     \<lparr>endpoint = sample_Endpoint,
      literal = \<lparr>content = ''query A { a } query B { b }'',
                 ast = [OperationDefinition QUERY (Some ''A''),
                        OperationDefinition QUERY (Some ''B'')]\<rparr>,
      variables = []\<rparr>"

definition query_to_bad_url :: ExecuteOperationOptions where
  "query_to_bad_url =
     \<lparr>endpoint = \<lparr>url = ''not a url'', headers = []\<rparr>,
      literal = \<lparr>content = ''query A { a }'', ast = [OperationDefinition QUERY (Some ''A'')]\<rparr>,
      variables = []\<rparr>"

text \<open>The world an earlier invocation against another endpoint has left: one client
  built and one query stream running on it.\<close>

definition other_Client :: Client where
  "other_Client =
     \<lparr>client_url = ''http://other/graphql'',
      fetchOptions = \<lparr>fetch_headers = [], agent = None\<rparr>,
      exchanges = [dedupExchange, cacheExchange, fetchExchange]\<rparr>"

definition earlier_World :: World where
  "earlier_World =
     \<lparr>outputChannel = [''NetworkHelper: operation: query'',
                       ''NetworkHelper: endpoint: http://other/graphql''],
      console_error = [],
      clients_built = [other_Client],
      streams = [\<lparr>stream_method = ''query'',
                  stream_client = other_Client,
                  stream_document = [OperationDefinition QUERY None],
                  stream_variables = [],
                  subscriber_operation = ''query''\<rparr>]\<rparr>"

section \<open>Properties of the serializer\<close>

lemma JSON_stringify_Obj:
  "JSON_stringify (Obj kvs) space = Some (JSON_stringify_object kvs space)"
  by (simp add: JSON_stringify_def JSON_stringify_object_def)

section \<open>Properties of the result consumer\<close>

text \<open>
  C4: a result event that carries \<^verbatim>\<open>data\<close> and/or \<^verbatim>\<open>errors\<close> (a value that
  passes the consumer's test \<^verbatim>\<open>errors || data\<close>) makes the data branch call the
  update callback exactly once. The first call has the payload
  \<^verbatim>\<open>JSON.stringify({data, errors}, null, 2)\<close> and the operation kind the consumer
  was built for; the calls after it are those of the error branch alone (what the
  same event gives without its data and errors), and there is none when the event
  has no top-level \<^verbatim>\<open>error\<close>. The example is the event
  \<^verbatim>\<open>{data: {foo: 1}, errors: undefined}\<close>, whose payload has no \<^verbatim>\<open>errors\<close> key.
\<close>

theorem consumer_data_branch_once:
  "truthy (errors result) \<or> truthy (data result) \<Longrightarrow>
     buildSubscribeConsumer operation result =
       (formatData result, operation)
       # buildSubscribeConsumer operation (result\<lparr>errors := Undefined, data := Undefined\<rparr>)
     \<and> JSON_stringify (Obj [(''data'', data result), (''errors'', errors result)]) 2
         = Some (formatData result)
     \<and> (error result = None \<longrightarrow>
          buildSubscribeConsumer operation result = [(formatData result, operation)])"
  by (simp add: buildSubscribeConsumer_def formatData_def JSON_stringify_Obj)

theorem consumer_data_branch_once_witness:
  "(truthy Undefined \<or> truthy (Obj [(''foo'', Num 1)]))
   \<and> buildSubscribeConsumer ''query''
       \<lparr>errors = Undefined, data = Obj [(''foo'', Num 1)], error = None\<rparr>
     = [(''{'' @ [CHR 0x0A]
         @ ''  '' @ [CHR 0x22] @ ''data'' @ [CHR 0x22] @ '': {'' @ [CHR 0x0A]
         @ ''    '' @ [CHR 0x22] @ ''foo'' @ [CHR 0x22] @ '': 1'' @ [CHR 0x0A]
         @ ''  }'' @ [CHR 0x0A]
         @ ''}'',
         ''query'')]"
proof -
  let ?r = "\<lparr>errors = Undefined, data = Obj [(''foo'', Num 1)], error = None\<rparr>"
  have h: "truthy (errors ?r) \<or> truthy (data ?r)" by simp
  have p: "formatData ?r
     = ''{'' @ [CHR 0x0A]
         @ ''  '' @ [CHR 0x22] @ ''data'' @ [CHR 0x22] @ '': {'' @ [CHR 0x0A]
         @ ''    '' @ [CHR 0x22] @ ''foo'' @ [CHR 0x22] @ '': 1'' @ [CHR 0x0A]
         @ ''  }'' @ [CHR 0x0A]
         @ ''}''" by code_simp
  have "buildSubscribeConsumer ''query'' ?r = [(formatData ?r, ''query'')]"
    using consumer_data_branch_once [OF h, of "''query''", THEN conjunct2, THEN conjunct2]
    by simp
  with p show ?thesis by simp
qed

text \<open>
  C5: for the event \<^verbatim>\<open>{error: {graphQLErrors: [err1], networkError: null}}\<close> with
  neither \<^verbatim>\<open>data\<close> nor \<^verbatim>\<open>errors\<close>, the consumer calls the update callback
  exactly once, with \<^verbatim>\<open>JSON.stringify({errors: [err1]}, null, 2)\<close> and its
  operation kind.
\<close>

theorem consumer_graphQLErrors_once:
  "buildSubscribeConsumer operation
     \<lparr>errors = Undefined, data = Undefined,
      error = Some \<lparr>graphQLErrors = Some [err1], networkError = None\<rparr>\<rparr>
   = [(JSON_stringify_object [(''errors'', Arr [err1])] 2, operation)]
   \<and> JSON_stringify (Obj [(''errors'', Arr [err1])]) 2
       = Some (JSON_stringify_object [(''errors'', Arr [err1])] 2)"
  by (simp add: buildSubscribeConsumer_def JSON_stringify_Obj)

theorem consumer_graphQLErrors_once_witness:
  "buildSubscribeConsumer ''query''
     \<lparr>errors = Undefined, data = Undefined,
      error = Some \<lparr>graphQLErrors = Some [Obj [(''message'', Str ''no'')]], networkError = None\<rparr>\<rparr>
   = [(''{'' @ [CHR 0x0A]
       @ ''  '' @ [CHR 0x22] @ ''errors'' @ [CHR 0x22] @ '': ['' @ [CHR 0x0A]
       @ ''    {'' @ [CHR 0x0A]
       @ ''      '' @ [CHR 0x22] @ ''message'' @ [CHR 0x22] @ '': '' @ [CHR 0x22] @ ''no'' @ [CHR 0x22] @ [CHR 0x0A]
       @ ''    }'' @ [CHR 0x0A]
       @ ''  ]'' @ [CHR 0x0A]
       @ ''}'',
       ''query'')]"
proof -
  have p: "JSON_stringify_object [(''errors'', Arr [Obj [(''message'', Str ''no'')]])] 2
     = ''{'' @ [CHR 0x0A]
       @ ''  '' @ [CHR 0x22] @ ''errors'' @ [CHR 0x22] @ '': ['' @ [CHR 0x0A]
       @ ''    {'' @ [CHR 0x0A]
       @ ''      '' @ [CHR 0x22] @ ''message'' @ [CHR 0x22] @ '': '' @ [CHR 0x22] @ ''no'' @ [CHR 0x22] @ [CHR 0x0A]
       @ ''    }'' @ [CHR 0x0A]
       @ ''  ]'' @ [CHR 0x0A]
       @ ''}''" by code_simp
  show ?thesis
    using consumer_graphQLErrors_once [of "''query''" "Obj [(''message'', Str ''no'')]"] p
    by simp
qed

text \<open>
  C6: for the event \<^verbatim>\<open>{error: {graphQLErrors: [], networkError: e}}\<close> with neither
  \<^verbatim>\<open>data\<close> nor \<^verbatim>\<open>errors\<close>, the consumer calls the update callback exactly
  once, with \<^verbatim>\<open>e.toString()\<close> and its operation kind; for
  \<^verbatim>\<open>new Error("x")\<close> the payload is \<^verbatim>\<open>Error: x\<close>.
\<close>

theorem consumer_networkError_once:
  "buildSubscribeConsumer operation
     \<lparr>errors = Undefined, data = Undefined,
      error = Some \<lparr>graphQLErrors = Some [], networkError = Some e\<rparr>\<rparr>
   = [(Error_toString e, operation)]"
  by (simp add: buildSubscribeConsumer_def)

theorem consumer_networkError_once_witness:
  "buildSubscribeConsumer ''subscription''
     \<lparr>errors = Undefined, data = Undefined,
      error = Some \<lparr>graphQLErrors = Some [],
                    networkError = Some \<lparr>error_name = ''Error'', error_message = ''x''\<rparr>\<rparr>\<rparr>
   = [(''Error: x'', ''subscription'')]"
  using consumer_networkError_once
          [of "''subscription''" "\<lparr>error_name = ''Error'', error_message = ''x''\<rparr>"]
  by (simp add: Error_toString_def)

text \<open>
  C10: an event whose \<^verbatim>\<open>data\<close> is falsy, whose \<^verbatim>\<open>errors\<close> is falsy and which
  has no top-level \<^verbatim>\<open>error\<close> makes the consumer call the update callback zero
  times.
\<close>

theorem consumer_drops_empty_event:
  "\<not> truthy (data result) \<Longrightarrow> \<not> truthy (errors result) \<Longrightarrow> error result = None \<Longrightarrow>
     buildSubscribeConsumer operation result = []"
  by (simp add: buildSubscribeConsumer_def)

theorem consumer_drops_empty_event_witness:
  "\<not> truthy Null \<and> \<not> truthy Undefined
   \<and> buildSubscribeConsumer ''query'' \<lparr>errors = Undefined, data = Null, error = None\<rparr> = []"
  using consumer_drops_empty_event
          [of "\<lparr>errors = Undefined, data = Null, error = None\<rparr>" "''query''"]
  by simp

section \<open>Properties of the client builder\<close>

text \<open>
  C7: the client \<^verbatim>\<open>buildClient\<close> returns for the operation kind
  \<^verbatim>\<open>subscription\<close> has, after the default exchanges, one subscription exchange
  over a WebSocket client with a connection acknowledgment timeout of 3000 ms whose
  URL is the endpoint's with the leading \<^verbatim>\<open>http\<close> replaced by \<^verbatim>\<open>ws\<close>, so
  that \<^verbatim>\<open>http://\<close> becomes \<^verbatim>\<open>ws://\<close> and \<^verbatim>\<open>https://\<close> becomes
  \<^verbatim>\<open>wss://\<close>; for every other operation kind the client has the default
  exchanges only.
\<close>

theorem buildClient_websocket:
  "buildClient env operation ep = Inr c \<Longrightarrow>
     (operation = ''subscription'' \<longrightarrow>
        exchanges c = defaultExchanges
          @ [subscriptionExchange
               \<lparr>ws_url = replace_http_ws (url ep), connectionAckWaitTimeout = 3000\<rparr>])
     \<and> (operation \<noteq> ''subscription'' \<longrightarrow> exchanges c = defaultExchanges)
     \<and> (\<forall>rest. url ep = ''http://'' @ rest \<longrightarrow> replace_http_ws (url ep) = ''ws://'' @ rest)
     \<and> (\<forall>rest. url ep = ''https://'' @ rest \<longrightarrow> replace_http_ws (url ep) = ''wss://'' @ rest)"
  by (auto simp: buildClient_def Let_def replace_http_ws_def split: option.splits)

theorem buildClient_websocket_witness:
  "buildClient sample_Platform ''subscription'' \<lparr>url = ''https://host/graphql'', headers = []\<rparr>
     = Inr \<lparr>client_url = ''https://host/graphql'',
            fetchOptions = \<lparr>fetch_headers = [],
                            agent = Some \<lparr>agent_rejectUnauthorized = False\<rparr>\<rparr>,
            exchanges = [dedupExchange, cacheExchange, fetchExchange,
                         subscriptionExchange
                           \<lparr>ws_url = ''wss://host/graphql'',
                            connectionAckWaitTimeout = 3000\<rparr>]\<rparr>
   \<and> replace_http_ws ''http://host/graphql'' = ''ws://host/graphql''
   \<and> buildClient sample_Platform ''query'' sample_Endpoint
     = Inr \<lparr>client_url = ''http://host/graphql'',
            fetchOptions = \<lparr>fetch_headers = [], agent = None\<rparr>,
            exchanges = [dedupExchange, cacheExchange, fetchExchange]\<rparr>"
proof -
  let ?ep = "\<lparr>url = ''https://host/graphql'', headers = []\<rparr>"
  obtain c where c: "buildClient sample_Platform ''subscription'' ?ep = Inr c"
    by (simp add: buildClient_def sample_Platform_def sample_URL_protocol_def)
  obtain q where q: "buildClient sample_Platform ''query'' sample_Endpoint = Inr q"
    by (simp add: buildClient_def sample_Platform_def sample_URL_protocol_def sample_Endpoint_def)
  have "exchanges c = defaultExchanges
          @ [subscriptionExchange \<lparr>ws_url = ''wss://host/graphql'', connectionAckWaitTimeout = 3000\<rparr>]"
    using buildClient_websocket [OF c] by simp
  moreover have "exchanges q = defaultExchanges"
    using buildClient_websocket [OF q] by simp
  moreover have "replace_http_ws ''http://host/graphql'' = ''ws://host/graphql''"
    using buildClient_websocket [OF q] by (simp add: sample_Endpoint_def)
  ultimately show ?thesis
    using c q
    by (auto simp: buildClient_def sample_Platform_def sample_URL_protocol_def
          sample_Endpoint_def defaultExchanges_def Let_def)
qed

text \<open>
  C8: the client \<^verbatim>\<open>buildClient\<close> returns has the HTTPS agent, made with the
  configured \<^verbatim>\<open>rejectUnauthorized\<close>, in its fetch options if and only if the
  protocol of the endpoint's URL is \<^verbatim>\<open>https:\<close>; otherwise it has no agent and is
  the same client whatever the setting is.
\<close>

theorem buildClient_agent:
  "buildClient env operation ep = Inr c \<Longrightarrow>
     agent (fetchOptions c) =
       (if URL_protocol env (url ep) = Some ''https:''
        then Some \<lparr>agent_rejectUnauthorized = rejectUnauthorized env\<rparr> else None)
     \<and> (URL_protocol env (url ep) \<noteq> Some ''https:'' \<longrightarrow>
          buildClient (env\<lparr>rejectUnauthorized := b\<rparr>) operation ep = Inr c)"
  by (auto simp: buildClient_def Let_def split: option.splits)

theorem buildClient_agent_witness:
  "buildClient sample_Platform ''query'' \<lparr>url = ''https://host/graphql'', headers = []\<rparr>
     = Inr \<lparr>client_url = ''https://host/graphql'',
            fetchOptions = \<lparr>fetch_headers = [],
                            agent = Some \<lparr>agent_rejectUnauthorized = False\<rparr>\<rparr>,
            exchanges = [dedupExchange, cacheExchange, fetchExchange]\<rparr>
   \<and> buildClient sample_Platform ''query'' sample_Endpoint
     = Inr \<lparr>client_url = ''http://host/graphql'',
            fetchOptions = \<lparr>fetch_headers = [], agent = None\<rparr>,
            exchanges = [dedupExchange, cacheExchange, fetchExchange]\<rparr>
   \<and> buildClient (sample_Platform\<lparr>rejectUnauthorized := True\<rparr>) ''query'' sample_Endpoint
     = buildClient sample_Platform ''query'' sample_Endpoint"
proof -
  let ?ep = "\<lparr>url = ''https://host/graphql'', headers = []\<rparr>"
  have p: "URL_protocol sample_Platform (url ?ep) = Some ''https:''"
    by (simp add: sample_Platform_def sample_URL_protocol_def)
  have p': "URL_protocol sample_Platform (url sample_Endpoint) = Some ''http:''"
    by (simp add: sample_Platform_def sample_URL_protocol_def sample_Endpoint_def)
  obtain c where c: "buildClient sample_Platform ''query'' ?ep = Inr c"
    by (simp add: buildClient_def sample_Platform_def sample_URL_protocol_def)
  obtain q where q: "buildClient sample_Platform ''query'' sample_Endpoint = Inr q"
    by (simp add: buildClient_def sample_Platform_def sample_URL_protocol_def sample_Endpoint_def)
  have "agent (fetchOptions c) = Some \<lparr>agent_rejectUnauthorized = False\<rparr>"
    using buildClient_agent [OF c, of True] p by (simp add: sample_Platform_def)
  moreover have "agent (fetchOptions q) = None
      \<and> buildClient (sample_Platform\<lparr>rejectUnauthorized := True\<rparr>) ''query'' sample_Endpoint = Inr q"
    using buildClient_agent [OF q, of True] p' by simp
  ultimately show ?thesis
    using c q
    by (auto simp: buildClient_def sample_Platform_def sample_URL_protocol_def
          sample_Endpoint_def defaultExchanges_def Let_def)
qed

section \<open>Properties of the classifier and the inliner\<close>

lemma visit_classify:
  "visit document
     (\<lambda>operation name (operationTypes, operationNames).
        (operationTypes @ [operation],
         operationNames @ [case name of None \<Rightarrow> [] | Some v \<Rightarrow> if v \<noteq> [] then v else []]))
     (ts, ns)
   = (ts @ map fst (operation_pairs document), ns @ map snd (operation_pairs document))"
proof (induction document arbitrary: ts ns)
  case Nil
  then show ?case by simp
next
  case (Cons d ds)
  then show ?case by (cases d) (auto split: option.splits)
qed

lemma length_operation_pairs:
  "length (operation_pairs document) = length (filter isOperationDefinition document)"
proof (induction document)
  case Nil
  then show ?case by simp
next
  case (Cons d ds)
  then show ?case by (cases d) simp_all
qed

lemma classify_eq:
  "classify document = (map fst (operation_pairs document), map snd (operation_pairs document))"
  by (simp add: classify_def visit_classify)

text \<open>
  C2: for a document with N top-level operation definitions the classification step
  of \<^verbatim>\<open>executeOperation\<close>, one \<^verbatim>\<open>visit\<close> of the document, fills its two arrays
  with the kinds and the names of exactly those N definitions, in document order.
\<close>

theorem classify_operation_pairs:
  "classify document
     = (map fst (operation_pairs document), map snd (operation_pairs document))
   \<and> zip (fst (classify document)) (snd (classify document)) = operation_pairs document
   \<and> length (operation_pairs document) = length (filter isOperationDefinition document)"
  by (simp add: classify_eq length_operation_pairs zip_map_fst_snd)

theorem classify_operation_pairs_witness:
  "classify [FragmentDefinition ''F'', OperationDefinition QUERY (Some ''A''),
             OperationDefinition MUTATION None, TypeSystemDefinition,
             OperationDefinition QUERY (Some ''B'')]
     = ([QUERY, MUTATION, QUERY], [''A'', [], ''B''])"
  using classify_operation_pairs
          [of "[FragmentDefinition ''F'', OperationDefinition QUERY (Some ''A''),
                OperationDefinition MUTATION None, TypeSystemDefinition,
                OperationDefinition QUERY (Some ''B'')]"]
  by simp

lemma prepended_fragments_snoc:
  "prepended_fragments (f # fs) = prepended_fragments fs @ fragment_content f @ [CHR 0x0A]"
  by (simp add: prepended_fragments_def)

lemma inlineFragments_prepends:
  "inlineFragments fragmentInfos c = prepended_fragments fragmentInfos @ c"
proof (induction fragmentInfos arbitrary: c)
  case Nil
  show ?case by (simp add: inlineFragments_def prepended_fragments_def)
next
  case (Cons f fs)
  have "inlineFragments (f # fs) c = inlineFragments fs (fragment_content f @ [CHR 0x0A] @ c)"
    by (simp add: inlineFragments_def)
  also have "\<dots> = prepended_fragments fs @ fragment_content f @ [CHR 0x0A] @ c"
    by (rule Cons.IH)
  finally show ?case by (simp add: prepended_fragments_snoc)
qed

lemma prepended_fragments_nonempty:
  "fragmentInfos \<noteq> [] \<Longrightarrow> prepended_fragments fragmentInfos \<noteq> []"
  by (cases fragmentInfos) (simp_all add: prepended_fragments_snoc)

text \<open>
  C3: the inlining step puts every fragment's text (and a line feed) in front of the
  content, without looking at what the content already holds. Run again with the same
  non-empty list on its own result, it puts the same text in front once more, so the
  second result differs from the first.
\<close>

theorem inlineFragments_twice:
  "fragmentInfos \<noteq> [] \<Longrightarrow>
     inlineFragments fragmentInfos (inlineFragments fragmentInfos c)
       = prepended_fragments fragmentInfos @ prepended_fragments fragmentInfos @ c
     \<and> inlineFragments fragmentInfos c = prepended_fragments fragmentInfos @ c
     \<and> inlineFragments fragmentInfos (inlineFragments fragmentInfos c)
         \<noteq> inlineFragments fragmentInfos c"
  using prepended_fragments_nonempty [of fragmentInfos]
  by (simp add: inlineFragments_prepends)

theorem inlineFragments_twice_witness:
  "[\<lparr>fragment_content = ''fragment F on T { f }''\<rparr>, \<lparr>fragment_content = ''fragment G on T { g }''\<rparr>] \<noteq> []
   \<and> inlineFragments
       [\<lparr>fragment_content = ''fragment F on T { f }''\<rparr>, \<lparr>fragment_content = ''fragment G on T { g }''\<rparr>]
       ''query { ...F ...G }''
     = ''fragment G on T { g }'' @ [CHR 0x0A] @ ''fragment F on T { f }'' @ [CHR 0x0A]
       @ ''query { ...F ...G }''
   \<and> inlineFragments
       [\<lparr>fragment_content = ''fragment F on T { f }''\<rparr>, \<lparr>fragment_content = ''fragment G on T { g }''\<rparr>]
       (inlineFragments
          [\<lparr>fragment_content = ''fragment F on T { f }''\<rparr>, \<lparr>fragment_content = ''fragment G on T { g }''\<rparr>]
          ''query { ...F ...G }'')
     = ''fragment G on T { g }'' @ [CHR 0x0A] @ ''fragment F on T { f }'' @ [CHR 0x0A]
       @ ''fragment G on T { g }'' @ [CHR 0x0A] @ ''fragment F on T { f }'' @ [CHR 0x0A]
       @ ''query { ...F ...G }''"
proof -
  let ?fs = "[\<lparr>fragment_content = ''fragment F on T { f }''\<rparr>, \<lparr>fragment_content = ''fragment G on T { g }''\<rparr>]"
  let ?c = "''query { ...F ...G }''"
  have h: "?fs \<noteq> []" by simp
  note twice = inlineFragments_twice [OF h, of ?c]
  have once: "inlineFragments ?fs ?c
      = ''fragment G on T { g }'' @ [CHR 0x0A] @ ''fragment F on T { f }'' @ [CHR 0x0A] @ ?c"
    using twice [THEN conjunct2, THEN conjunct1] by (simp add: prepended_fragments_def)
  have again: "inlineFragments ?fs (inlineFragments ?fs ?c)
      = ''fragment G on T { g }'' @ [CHR 0x0A] @ ''fragment F on T { f }'' @ [CHR 0x0A]
        @ ''fragment G on T { g }'' @ [CHR 0x0A] @ ''fragment F on T { f }'' @ [CHR 0x0A] @ ?c"
    using twice [THEN conjunct1] by (simp add: prepended_fragments_def)
  show ?thesis by (intro conjI h once again)
qed

section \<open>Properties of the executor\<close>

lemma executeOne_streams:
  "map subscriber_operation (streams (executeOne env ep p v operation w))
     = map subscriber_operation (streams w)
       @ (if operation_throws env ep p v operation then [] else [operation])"
  by (simp add: executeOne_def operation_throws_def Let_def split: sum.splits option.splits)

lemma executeOne_console_error:
  "console_error (executeOne env ep p v operation w)
     = console_error w
       @ (if operation_throws env ep p v operation then [''error executing operation''] else [])"
  by (simp add: executeOne_def operation_throws_def Let_def split: sum.splits option.splits)

lemma executeOne_clients_built:
  "clients_built (executeOne env ep p v operation w)
     = clients_built w
       @ (case buildClient env operation ep of Inl e \<Rightarrow> [] | Inr c \<Rightarrow> [c])"
  by (simp add: executeOne_def Let_def split: sum.splits option.splits)

lemma executeOne_stream_clients:
  "set (map stream_client (streams (executeOne env ep p v operation w)))
     \<subseteq> set (map stream_client (streams w))
       \<union> set (case buildClient env operation ep of Inl e \<Rightarrow> [] | Inr c \<Rightarrow> [c])"
  by (auto simp: executeOne_def Let_def split: sum.splits option.splits)

lemma loop_streams:
  "map subscriber_operation
     (streams (foldl (\<lambda>w operation. executeOne env ep p v (OperationTypeNode_value operation) w)
                 w operationTypes))
   = map subscriber_operation (streams w)
     @ filter (\<lambda>operation. \<not> operation_throws env ep p v operation)
         (map OperationTypeNode_value operationTypes)"
  by (induction operationTypes arbitrary: w) (simp_all add: executeOne_streams)

lemma loop_console_error:
  "console_error (foldl (\<lambda>w operation. executeOne env ep p v (OperationTypeNode_value operation) w)
                    w operationTypes)
   = console_error w
     @ replicate
         (length (filter (operation_throws env ep p v) (map OperationTypeNode_value operationTypes)))
         ''error executing operation''"
  by (induction operationTypes arbitrary: w)
     (simp_all add: executeOne_console_error replicate_app_Cons_same)

lemma loop_clients_built:
  "clients_built (foldl (\<lambda>w operation. executeOne env ep p v (OperationTypeNode_value operation) w)
                    w operationTypes)
   = clients_built w @ clients_for env ep operationTypes"
  by (induction operationTypes arbitrary: w)
     (simp_all add: executeOne_clients_built clients_for_def)

lemma executeOperation_reaches_loop:
  assumes "getFragmentInfos env (ast (literal opts)) = Inr fragmentInfos"
    and "gql env (gql_template (inlineFragments fragmentInfos (content (literal opts))))
           = Inr parsedOperation"
  shows "executeOperation env opts w
     = (Inr (map (\<lambda>operation. ()) (map fst (operation_pairs (ast (literal opts))))),
        (literal opts)\<lparr>content := inlineFragments fragmentInfos (content (literal opts))\<rparr>,
        foldl (\<lambda>w operation.
                 executeOne env (endpoint opts) parsedOperation (variables opts)
                   (OperationTypeNode_value operation) w)
          w (map fst (operation_pairs (ast (literal opts)))))"
  using assms by (simp add: executeOperation_def classify_eq Let_def)

text \<open>
  C1: once the fragments are resolved and the combined text is parsed, whatever
  \<^verbatim>\<open>buildClient\<close> or the start of a stream throws for one operation is caught:
  the promise of \<^verbatim>\<open>executeOperation\<close> resolves, with one entry per classified
  operation; a stream is started for exactly the operations whose own build and start
  do not throw, in document order, so a failure of one operation takes no sibling with
  it; and each failing operation leaves one line on \<^verbatim>\<open>console.error\<close> and nothing
  else.
\<close>

theorem executeOperation_isolates_failures:
  "getFragmentInfos env (ast (literal opts)) = Inr fragmentInfos \<Longrightarrow>
   gql env (gql_template (inlineFragments fragmentInfos (content (literal opts))))
     = Inr parsedOperation \<Longrightarrow>
     fst (executeOperation env opts w)
       = Inr (replicate (length (fst (classify (ast (literal opts))))) ())
     \<and> map subscriber_operation (streams (snd (snd (executeOperation env opts w))))
         = map subscriber_operation (streams w)
           @ filter (\<lambda>operation. \<not> operation_throws env (endpoint opts) parsedOperation
                                      (variables opts) operation)
               (map OperationTypeNode_value (fst (classify (ast (literal opts)))))
     \<and> console_error (snd (snd (executeOperation env opts w)))
         = console_error w
           @ replicate
               (length (filter (operation_throws env (endpoint opts) parsedOperation (variables opts))
                          (map OperationTypeNode_value (fst (classify (ast (literal opts)))))))
               ''error executing operation''"
  by (simp add: executeOperation_reaches_loop classify_eq loop_streams loop_console_error
        map_replicate_const)

theorem executeOperation_isolates_failures_witness:
  "getFragmentInfos sample_Platform (ast (literal three_operations)) = Inr []
   \<and> gql sample_Platform
       (gql_template (inlineFragments [] (content (literal three_operations))))
     = Inr [OperationDefinition QUERY None]
   \<and> operation_throws sample_Platform sample_Endpoint [OperationDefinition QUERY None] []
       ''mutation''
   \<and> fst (executeOperation sample_Platform three_operations empty_World) = Inr [(), (), ()]
   \<and> map subscriber_operation
       (streams (snd (snd (executeOperation sample_Platform three_operations empty_World))))
     = [''query'', ''subscription'']
   \<and> console_error (snd (snd (executeOperation sample_Platform three_operations empty_World)))
     = [''error executing operation'']"
proof -
  let ?p = "[OperationDefinition QUERY None]"
  have f: "getFragmentInfos sample_Platform (ast (literal three_operations)) = Inr []"
    by (simp add: sample_Platform_def)
  have g: "gql sample_Platform
             (gql_template (inlineFragments [] (content (literal three_operations)))) = Inr ?p"
    by (simp add: sample_Platform_def)
  have c: "fst (classify (ast (literal three_operations))) = [QUERY, MUTATION, SUBSCRIPTION]"
    by (simp add: classify_def three_operations_def)
  have e: "endpoint three_operations = sample_Endpoint" "variables three_operations = []"
    by (simp_all add: three_operations_def)
  have t: "\<not> operation_throws sample_Platform sample_Endpoint ?p [] ''query''"
    "operation_throws sample_Platform sample_Endpoint ?p [] ''mutation''"
    "\<not> operation_throws sample_Platform sample_Endpoint ?p [] ''subscription''"
    by (simp_all add: operation_throws_def buildClient_def sample_Platform_def
          sample_URL_protocol_def sample_Endpoint_def)
  show ?thesis
    using executeOperation_isolates_failures [OF f g, of empty_World] f g t
    by (simp add: c e empty_World_def)
qed

lemma buildClient_returns:
  "URL_protocol env (url ep) \<noteq> None \<Longrightarrow> \<exists>c. buildClient env operation ep = Inr c"
  by (auto simp: buildClient_def Let_def split: option.splits)

lemma length_clients_for:
  "URL_protocol env (url ep) \<noteq> None \<Longrightarrow>
     length (clients_for env ep operationTypes) = length operationTypes"
proof (induction operationTypes)
  case Nil
  show ?case by (simp add: clients_for_def)
next
  case (Cons operation operationTypes)
  obtain c where "buildClient env (OperationTypeNode_value operation) ep = Inr c"
    using buildClient_returns [OF Cons.prems] by blast
  with Cons show ?case by (simp add: clients_for_def)
qed

lemma loop_stream_clients:
  "set (map stream_client
          (streams (foldl (\<lambda>w operation. executeOne env ep p v (OperationTypeNode_value operation) w)
                      w operationTypes)))
   \<subseteq> set (map stream_client (streams w)) \<union> set (clients_for env ep operationTypes)"
proof (induction operationTypes arbitrary: w)
  case Nil
  show ?case by simp
next
  case (Cons operation operationTypes)
  have "clients_for env ep (operation # operationTypes)
      = (case buildClient env (OperationTypeNode_value operation) ep of Inl e \<Rightarrow> [] | Inr c \<Rightarrow> [c])
        @ clients_for env ep operationTypes"
    by (simp add: clients_for_def)
  then show ?case
    using Cons.IH [of "executeOne env ep p v (OperationTypeNode_value operation) w"]
      executeOne_stream_clients [of env ep p v "OperationTypeNode_value operation" w]
    by auto
qed

lemma executeOne_streams_append:
  "streams (executeOne env ep p v operation w)
     = streams w @ streams (executeOne env ep p v operation empty_World)"
  by (simp add: executeOne_def empty_World_def Let_def split: sum.splits option.splits)

lemma loop_streams_append:
  "streams (foldl (\<lambda>w operation. executeOne env ep p v (OperationTypeNode_value operation) w)
              w operationTypes)
   = streams w
     @ streams (foldl (\<lambda>w operation. executeOne env ep p v (OperationTypeNode_value operation) w)
                  empty_World operationTypes)"
proof (induction operationTypes arbitrary: w)
  case Nil
  show ?case by (simp add: empty_World_def)
next
  case (Cons operation operationTypes)
  let ?one = "\<lambda>w. executeOne env ep p v (OperationTypeNode_value operation) w"
  let ?loop = "\<lambda>w. foldl (\<lambda>w operation. executeOne env ep p v (OperationTypeNode_value operation) w)
                       w operationTypes"
  have "streams (?loop (?one w)) = streams (?one w) @ streams (?loop empty_World)"
    by (rule Cons.IH)
  also have "\<dots> = streams w @ streams (?one empty_World) @ streams (?loop empty_World)"
    using executeOne_streams_append [of env ep p v "OperationTypeNode_value operation" w] by simp
  also have "streams (?one empty_World) @ streams (?loop empty_World)
      = streams (?loop (?one empty_World))"
    by (rule Cons.IH [symmetric])
  finally show ?case by simp
qed

lemma loop_new_stream_clients:
  "set (map stream_client
          (streams (foldl (\<lambda>w operation. executeOne env ep p v (OperationTypeNode_value operation) w)
                      empty_World operationTypes)))
   \<subseteq> set (clients_for env ep operationTypes)"
  using loop_stream_clients [of env ep p v empty_World operationTypes]
  by (simp add: empty_World_def)

text \<open>
  C9, as the code has it: an invocation of \<^verbatim>\<open>executeOperation\<close> that reaches its
  loop calls \<^verbatim>\<open>buildClient\<close> once for every classified operation, that is once
  for every operation definition of the document, so a kind that occurs k times is
  built k times; each call that does not throw gives one client, and with a URL that
  parses there are as many clients as operation definitions. The streams of earlier
  invocations stay as they are and the new ones come after them; the new streams are
  the ones the invocation starts in an empty world, whatever earlier invocations
  built or started, and every one of them runs on a client this invocation has built.
\<close>

theorem executeOperation_one_client_per_operation:
  assumes "getFragmentInfos env (ast (literal opts)) = Inr fragmentInfos"
    and "gql env (gql_template (inlineFragments fragmentInfos (content (literal opts))))
           = Inr parsedOperation"
  shows "clients_built (snd (snd (executeOperation env opts w)))
       = clients_built w
         @ clients_for env (endpoint opts) (fst (classify (ast (literal opts))))
     \<and> length (fst (classify (ast (literal opts))))
         = length (filter isOperationDefinition (ast (literal opts)))
     \<and> (URL_protocol env (url (endpoint opts)) \<noteq> None \<longrightarrow>
          length (clients_for env (endpoint opts) (fst (classify (ast (literal opts)))))
            = length (filter isOperationDefinition (ast (literal opts))))
     \<and> streams (snd (snd (executeOperation env opts w)))
         = streams w
           @ drop (length (streams w)) (streams (snd (snd (executeOperation env opts w))))
     \<and> drop (length (streams w)) (streams (snd (snd (executeOperation env opts w))))
         = streams (snd (snd (executeOperation env opts empty_World)))
     \<and> set (map stream_client
               (drop (length (streams w)) (streams (snd (snd (executeOperation env opts w))))))
         \<subseteq> set (clients_for env (endpoint opts) (fst (classify (ast (literal opts)))))"
proof -
  let ?ops = "map fst (operation_pairs (ast (literal opts)))"
  let ?loop = "\<lambda>w. foldl (\<lambda>w operation.
                 executeOne env (endpoint opts) parsedOperation (variables opts)
                   (OperationTypeNode_value operation) w) w ?ops"
  have after: "snd (snd (executeOperation env opts w)) = ?loop w" for w
    by (simp add: executeOperation_reaches_loop [OF assms])
  have ops: "fst (classify (ast (literal opts))) = ?ops"
    by (simp add: classify_eq)
  have built: "clients_built (?loop w) = clients_built w @ clients_for env (endpoint opts) ?ops"
    by (rule loop_clients_built)
  have count: "length ?ops = length (filter isOperationDefinition (ast (literal opts)))"
    by (simp add: length_operation_pairs)
  have returned: "URL_protocol env (url (endpoint opts)) \<noteq> None \<longrightarrow>
      length (clients_for env (endpoint opts) ?ops)
        = length (filter isOperationDefinition (ast (literal opts)))"
    using count by (simp add: length_clients_for)
  have appended: "streams (?loop w) = streams w @ streams (?loop empty_World)"
    by (rule loop_streams_append)
  then have new: "drop (length (streams w)) (streams (?loop w)) = streams (?loop empty_World)"
    by simp
  have kept: "streams (?loop w) = streams w @ drop (length (streams w)) (streams (?loop w))"
    using appended new by simp
  have own: "set (map stream_client (drop (length (streams w)) (streams (?loop w))))
      \<subseteq> set (clients_for env (endpoint opts) ?ops)"
    unfolding new by (rule loop_new_stream_clients)
  show ?thesis
    unfolding after ops by (intro conjI built count returned kept new own)
qed

theorem executeOperation_one_client_per_operation_witness:
  "getFragmentInfos sample_Platform (ast (literal two_queries)) = Inr []
   \<and> gql sample_Platform (gql_template (inlineFragments [] (content (literal two_queries))))
     = Inr [OperationDefinition QUERY None]
   \<and> URL_protocol sample_Platform (url (endpoint two_queries)) = Some ''http:''
   \<and> length (filter isOperationDefinition (ast (literal two_queries))) = 2
   \<and> clients_built (snd (snd (executeOperation sample_Platform two_queries earlier_World)))
     = [other_Client,
        \<lparr>client_url = ''http://host/graphql'',
         fetchOptions = \<lparr>fetch_headers = [], agent = None\<rparr>,
         exchanges = [dedupExchange, cacheExchange, fetchExchange]\<rparr>,
        \<lparr>client_url = ''http://host/graphql'',
         fetchOptions = \<lparr>fetch_headers = [], agent = None\<rparr>,
         exchanges = [dedupExchange, cacheExchange, fetchExchange]\<rparr>]
   \<and> map stream_client (streams (snd (snd (executeOperation sample_Platform two_queries earlier_World))))
     = [other_Client,
        \<lparr>client_url = ''http://host/graphql'',
         fetchOptions = \<lparr>fetch_headers = [], agent = None\<rparr>,
         exchanges = [dedupExchange, cacheExchange, fetchExchange]\<rparr>,
        \<lparr>client_url = ''http://host/graphql'',
         fetchOptions = \<lparr>fetch_headers = [], agent = None\<rparr>,
         exchanges = [dedupExchange, cacheExchange, fetchExchange]\<rparr>]
   \<and> set (map stream_client
           (drop (length (streams earlier_World))
              (streams (snd (snd (executeOperation sample_Platform two_queries earlier_World))))))
     \<subseteq> set [\<lparr>client_url = ''http://host/graphql'',
               fetchOptions = \<lparr>fetch_headers = [], agent = None\<rparr>,
               exchanges = [dedupExchange, cacheExchange, fetchExchange]\<rparr>]
   \<and> other_Client
     \<noteq> \<lparr>client_url = ''http://host/graphql'',
         fetchOptions = \<lparr>fetch_headers = [], agent = None\<rparr>,
         exchanges = [dedupExchange, cacheExchange, fetchExchange]\<rparr>"
proof -
  let ?c = "\<lparr>client_url = ''http://host/graphql'',
             fetchOptions = \<lparr>fetch_headers = [], agent = None\<rparr>,
             exchanges = [dedupExchange, cacheExchange, fetchExchange]\<rparr>"
  let ?after = "snd (snd (executeOperation sample_Platform two_queries earlier_World))"
  have f: "getFragmentInfos sample_Platform (ast (literal two_queries)) = Inr []"
    by (simp add: sample_Platform_def)
  have g: "gql sample_Platform (gql_template (inlineFragments [] (content (literal two_queries))))
             = Inr [OperationDefinition QUERY None]"
    by (simp add: sample_Platform_def)
  have u: "URL_protocol sample_Platform (url (endpoint two_queries)) = Some ''http:''"
    by (simp add: sample_Platform_def sample_URL_protocol_def two_queries_def sample_Endpoint_def)
  have n: "length (filter isOperationDefinition (ast (literal two_queries))) = 2"
    by (simp add: two_queries_def)
  have c: "fst (classify (ast (literal two_queries))) = [QUERY, QUERY]"
    by (simp add: classify_def two_queries_def)
  have b: "clients_for sample_Platform (endpoint two_queries) [QUERY, QUERY] = [?c, ?c]"
    by (simp add: clients_for_def buildClient_def sample_Platform_def sample_URL_protocol_def
          two_queries_def sample_Endpoint_def defaultExchanges_def)
  note inst = executeOperation_one_client_per_operation [OF f g, of earlier_World]
  have built: "clients_built ?after = [other_Client, ?c, ?c]"
    using inst [THEN conjunct1] by (simp add: c b earlier_World_def)
  have own: "set (map stream_client (drop (length (streams earlier_World)) (streams ?after)))
      \<subseteq> set [?c]"
    using inst [THEN conjunct2, THEN conjunct2, THEN conjunct2, THEN conjunct2, THEN conjunct2]
    by (simp add: c b)
  have all: "map stream_client (streams ?after) = [other_Client, ?c, ?c]"
    by (simp add: executeOperation_def classify_def executeOne_def buildClient_def
          two_queries_def sample_Platform_def sample_URL_protocol_def sample_Endpoint_def
          earlier_World_def defaultExchanges_def Let_def)
  have d: "other_Client \<noteq> ?c"
    by (simp add: other_Client_def)
  show ?thesis by (intro conjI f g u n built all own d)
qed

text \<open>
  The claim as the specification words it, one client per operation kind found in the
  document, fails on a document with two queries, where the one kind found gets two
  clients, and on an endpoint whose URL does not parse, where the one kind found gets
  none.
\<close>

theorem one_client_per_kind_counterexample:
  "remdups (fst (classify (ast (literal two_queries)))) = [QUERY]
   \<and> length (clients_built (snd (snd (executeOperation sample_Platform two_queries empty_World)))) = 2
   \<and> fst (classify (ast (literal query_to_bad_url))) = [QUERY]
   \<and> clients_built (snd (snd (executeOperation sample_Platform query_to_bad_url empty_World))) = []"
  by (simp add: executeOperation_def classify_def executeOne_def buildClient_def
        two_queries_def query_to_bad_url_def sample_Platform_def sample_URL_protocol_def
        sample_Endpoint_def empty_World_def Let_def)

end
